theory Spec2Isabelle
  imports Main "HOL-Library.Word"
begin

unbundle bit_operations_syntax

section \<open>The AVR assembler backend: fixup adjustment and application\<close>

text \<open>
  A shallow embedding of \<^verbatim>\<open>lib/Target/AVR/MCTargetDesc/AVRAsmBackend.cpp\<close>.
  \<^verbatim>\<open>adjustFixupValue\<close> works on a \<^verbatim>\<open>uint64_t &Value\<close>, so every template of the
  \<^verbatim>\<open>adjust\<close> namespace is instantiated at \<^verbatim>\<open>T = uint64_t\<close>: values are 64-bit words,
  \<open>-\<close> and \<open>*\<close> wrap, and the \<^verbatim>\<open>>>\<close> of \<^verbatim>\<open>adjust::pm\<close> and of the byte extractions
  is a logical shift. \<^verbatim>\<open>unsigned\<close> quantities (widths, offsets, sizes, loop counters) are
  32-bit words.
\<close>

type_synonym u8 = "8 word"
type_synonym u32 = "32 word"
type_synonym u64 = "64 word"

subsection \<open>Failures\<close>

text \<open>
  The ways a call can end without returning: \<^verbatim>\<open>MCContext::reportFatalError\<close> (the
  diagnostic of a failed range check when a context is supplied), \<^verbatim>\<open>llvm_unreachable\<close>
  (the same check without a context, an unhandled kind), a failed \<^verbatim>\<open>assert\<close>, and
  behaviour the language leaves undefined (a store outside the buffer, a shift by 64 or
  more, a null pointer dereferenced), which the source does not guard and the model makes
  a failure of its own.
\<close>

datatype fault =
    FatalError string
  | Unreachable string
  | AssertionFailed string
  | UndefinedBehaviour string

subsection \<open>Fixup kinds and the kind table\<close>

text \<open>
  \<^verbatim>\<open>MCFixupKind\<close> extended by \<^verbatim>\<open>AVR::Fixups\<close>. The target kinds are those of the
  \<^verbatim>\<open>Infos\<close> table, in its order (the table states that it is in the order of the
  enumeration); the generic kinds (below \<^verbatim>\<open>FirstTargetFixupKind\<close>) are the ones this
  file names.
\<close>

datatype MCFixupKind =
    FK_Data_2 | FK_Data_4 | FK_Data_8 | FK_GPRel_4
  | fixup_32
  | fixup_7_pcrel | fixup_13_pcrel
  | fixup_16 | fixup_16_pm
  | fixup_ldi
  | fixup_lo8_ldi | fixup_hi8_ldi | fixup_hh8_ldi | fixup_ms8_ldi
  | fixup_lo8_ldi_neg | fixup_hi8_ldi_neg | fixup_hh8_ldi_neg | fixup_ms8_ldi_neg
  | fixup_lo8_ldi_pm | fixup_hi8_ldi_pm | fixup_hh8_ldi_pm
  | fixup_lo8_ldi_pm_neg | fixup_hi8_ldi_pm_neg | fixup_hh8_ldi_pm_neg
  | fixup_call
  | fixup_6 | fixup_6_adiw
  | fixup_lo8_ldi_gs | fixup_hi8_ldi_gs
  | fixup_8 | fixup_8_lo8 | fixup_8_hi8 | fixup_8_hlo8
  | fixup_sym_diff | fixup_16_ldst
  | fixup_lds_sts_16
  | fixup_port6 | fixup_port5

record MCFixupKindInfo =
  Name :: string
  TargetOffset :: u32
  TargetSize :: u32
  Flags :: u32

definition FKF_IsPCRel :: u32 where
  "FKF_IsPCRel = 1"

text \<open>
  Modelled from the spec: \<^verbatim>\<open>MCAsmBackend::getFixupKindInfo\<close>, the framework's table for
  the kinds below \<^verbatim>\<open>FirstTargetFixupKind\<close>, is not under src/. The spec describes these
  kinds as raw 2/4/8-byte data fixups of the external framework: bit offset 0, a width of
  eight bits per byte of the kind's name, no flags.
\<close>

fun MCAsmBackend_getFixupKindInfo :: "MCFixupKind \<Rightarrow> MCFixupKindInfo" where
  "MCAsmBackend_getFixupKindInfo FK_Data_2 =
     \<lparr>Name = ''FK_Data_2'', TargetOffset = 0, TargetSize = 16, Flags = 0\<rparr>"
| "MCAsmBackend_getFixupKindInfo FK_Data_4 =
     \<lparr>Name = ''FK_Data_4'', TargetOffset = 0, TargetSize = 32, Flags = 0\<rparr>"
| "MCAsmBackend_getFixupKindInfo FK_Data_8 =
     \<lparr>Name = ''FK_Data_8'', TargetOffset = 0, TargetSize = 64, Flags = 0\<rparr>"
| "MCAsmBackend_getFixupKindInfo K =
     \<lparr>Name = ''FK_GPRel_4'', TargetOffset = 0, TargetSize = 32, Flags = 0\<rparr>"

text \<open>\<^verbatim>\<open>Kind < FirstTargetFixupKind\<close>.\<close>

fun isGenericKind :: "MCFixupKind \<Rightarrow> bool" where
  "isGenericKind FK_Data_2 = True"
| "isGenericKind FK_Data_4 = True"
| "isGenericKind FK_Data_8 = True"
| "isGenericKind FK_GPRel_4 = True"
| "isGenericKind K = False"

text \<open>
  The \<^verbatim>\<open>Infos\<close> table: name, offset, bits, flags. The table has no entry for a generic
  kind; \<open>getFixupKindInfo\<close> never asks it for one, and the last equation only makes the
  function total.
\<close>

fun Infos :: "MCFixupKind \<Rightarrow> MCFixupKindInfo" where
  "Infos fixup_32 = \<lparr>Name = ''fixup_32'', TargetOffset = 0, TargetSize = 32, Flags = 0\<rparr>"
| "Infos fixup_7_pcrel =
     \<lparr>Name = ''fixup_7_pcrel'', TargetOffset = 3, TargetSize = 7, Flags = FKF_IsPCRel\<rparr>"
| "Infos fixup_13_pcrel =
     \<lparr>Name = ''fixup_13_pcrel'', TargetOffset = 0, TargetSize = 12, Flags = FKF_IsPCRel\<rparr>"
| "Infos fixup_16 = \<lparr>Name = ''fixup_16'', TargetOffset = 0, TargetSize = 16, Flags = 0\<rparr>"
| "Infos fixup_16_pm = \<lparr>Name = ''fixup_16_pm'', TargetOffset = 0, TargetSize = 16, Flags = 0\<rparr>"
| "Infos fixup_ldi = \<lparr>Name = ''fixup_ldi'', TargetOffset = 0, TargetSize = 8, Flags = 0\<rparr>"
| "Infos fixup_lo8_ldi = \<lparr>Name = ''fixup_lo8_ldi'', TargetOffset = 0, TargetSize = 8, Flags = 0\<rparr>"
| "Infos fixup_hi8_ldi = \<lparr>Name = ''fixup_hi8_ldi'', TargetOffset = 0, TargetSize = 8, Flags = 0\<rparr>"
| "Infos fixup_hh8_ldi = \<lparr>Name = ''fixup_hh8_ldi'', TargetOffset = 0, TargetSize = 8, Flags = 0\<rparr>"
| "Infos fixup_ms8_ldi = \<lparr>Name = ''fixup_ms8_ldi'', TargetOffset = 0, TargetSize = 8, Flags = 0\<rparr>"
| "Infos fixup_lo8_ldi_neg =
     \<lparr>Name = ''fixup_lo8_ldi_neg'', TargetOffset = 0, TargetSize = 8, Flags = 0\<rparr>"
| "Infos fixup_hi8_ldi_neg =
     \<lparr>Name = ''fixup_hi8_ldi_neg'', TargetOffset = 0, TargetSize = 8, Flags = 0\<rparr>"
| "Infos fixup_hh8_ldi_neg =
     \<lparr>Name = ''fixup_hh8_ldi_neg'', TargetOffset = 0, TargetSize = 8, Flags = 0\<rparr>"
| "Infos fixup_ms8_ldi_neg =
     \<lparr>Name = ''fixup_ms8_ldi_neg'', TargetOffset = 0, TargetSize = 8, Flags = 0\<rparr>"
| "Infos fixup_lo8_ldi_pm =
     \<lparr>Name = ''fixup_lo8_ldi_pm'', TargetOffset = 0, TargetSize = 8, Flags = 0\<rparr>"
| "Infos fixup_hi8_ldi_pm =
     \<lparr>Name = ''fixup_hi8_ldi_pm'', TargetOffset = 0, TargetSize = 8, Flags = 0\<rparr>"
| "Infos fixup_hh8_ldi_pm =
     \<lparr>Name = ''fixup_hh8_ldi_pm'', TargetOffset = 0, TargetSize = 8, Flags = 0\<rparr>"
| "Infos fixup_lo8_ldi_pm_neg =
     \<lparr>Name = ''fixup_lo8_ldi_pm_neg'', TargetOffset = 0, TargetSize = 8, Flags = 0\<rparr>"
| "Infos fixup_hi8_ldi_pm_neg =
     \<lparr>Name = ''fixup_hi8_ldi_pm_neg'', TargetOffset = 0, TargetSize = 8, Flags = 0\<rparr>"
| "Infos fixup_hh8_ldi_pm_neg =
     \<lparr>Name = ''fixup_hh8_ldi_pm_neg'', TargetOffset = 0, TargetSize = 8, Flags = 0\<rparr>"
| "Infos fixup_call = \<lparr>Name = ''fixup_call'', TargetOffset = 0, TargetSize = 22, Flags = 0\<rparr>"
| "Infos fixup_6 = \<lparr>Name = ''fixup_6'', TargetOffset = 0, TargetSize = 16, Flags = 0\<rparr>"
| "Infos fixup_6_adiw = \<lparr>Name = ''fixup_6_adiw'', TargetOffset = 0, TargetSize = 6, Flags = 0\<rparr>"
| "Infos fixup_lo8_ldi_gs =
     \<lparr>Name = ''fixup_lo8_ldi_gs'', TargetOffset = 0, TargetSize = 8, Flags = 0\<rparr>"
| "Infos fixup_hi8_ldi_gs =
     \<lparr>Name = ''fixup_hi8_ldi_gs'', TargetOffset = 0, TargetSize = 8, Flags = 0\<rparr>"
| "Infos fixup_8 = \<lparr>Name = ''fixup_8'', TargetOffset = 0, TargetSize = 8, Flags = 0\<rparr>"
| "Infos fixup_8_lo8 = \<lparr>Name = ''fixup_8_lo8'', TargetOffset = 0, TargetSize = 8, Flags = 0\<rparr>"
| "Infos fixup_8_hi8 = \<lparr>Name = ''fixup_8_hi8'', TargetOffset = 0, TargetSize = 8, Flags = 0\<rparr>"
| "Infos fixup_8_hlo8 = \<lparr>Name = ''fixup_8_hlo8'', TargetOffset = 0, TargetSize = 8, Flags = 0\<rparr>"
| "Infos fixup_sym_diff =
     \<lparr>Name = ''fixup_sym_diff'', TargetOffset = 0, TargetSize = 32, Flags = 0\<rparr>"
| "Infos fixup_16_ldst =
     \<lparr>Name = ''fixup_16_ldst'', TargetOffset = 0, TargetSize = 16, Flags = 0\<rparr>"
| "Infos fixup_lds_sts_16 =
     \<lparr>Name = ''fixup_lds_sts_16'', TargetOffset = 0, TargetSize = 16, Flags = 0\<rparr>"
| "Infos fixup_port6 = \<lparr>Name = ''fixup_port6'', TargetOffset = 0, TargetSize = 16, Flags = 0\<rparr>"
| "Infos fixup_port5 = \<lparr>Name = ''fixup_port5'', TargetOffset = 3, TargetSize = 5, Flags = 0\<rparr>"
| "Infos K = MCAsmBackend_getFixupKindInfo K"

text \<open>
  \<^verbatim>\<open>AVRAsmBackend::getFixupKindInfo\<close>. Its assertion \<^verbatim>\<open>"Invalid kind!"\<close> guards kinds
  beyond the table; the datatype has none.
\<close>

definition getFixupKindInfo :: "MCFixupKind \<Rightarrow> MCFixupKindInfo" where
  "getFixupKindInfo Kind =
     (if isGenericKind Kind then MCAsmBackend_getFixupKindInfo Kind else Infos Kind)"

subsection \<open>Helpers of the support library\<close>

text \<open>
  Modelled from the spec: \<^verbatim>\<open>isIntN\<close>, \<^verbatim>\<open>isUIntN\<close>, \<^verbatim>\<open>minIntN\<close>, \<^verbatim>\<open>maxIntN\<close> and
  \<^verbatim>\<open>maxUIntN\<close> of \<^verbatim>\<open>llvm/Support/MathExtras.h\<close> are not under src/. The spec: a signed
  check accepts the values of a two's-complement field of \<open>width\<close> bits, the inclusive
  range from \<open>-2^(width-1)\<close> to \<open>2^(width-1)-1\<close>; an unsigned check accepts the range from
  \<open>0\<close> to \<open>2^width - 1\<close>. \<^verbatim>\<open>isIntN\<close> reads the 64-bit value as signed, \<^verbatim>\<open>isUIntN\<close> as
  unsigned.
\<close>

definition minIntN :: "u32 \<Rightarrow> int" where
  "minIntN N = - (2 ^ (unat N - 1))"

definition maxIntN :: "u32 \<Rightarrow> int" where
  "maxIntN N = 2 ^ (unat N - 1) - 1"

definition maxUIntN :: "u32 \<Rightarrow> int" where
  "maxUIntN N = 2 ^ unat N - 1"

definition isIntN :: "u32 \<Rightarrow> u64 \<Rightarrow> bool" where
  "isIntN N x = (minIntN N \<le> sint x \<and> sint x \<le> maxIntN N)"

definition isUIntN :: "u32 \<Rightarrow> u64 \<Rightarrow> bool" where
  "isUIntN N x = (uint x \<le> maxUIntN N)"

text \<open>
  Modelled from the spec: \<^verbatim>\<open>AVR::fixups::adjustBranchTarget\<close> of
  \<^verbatim>\<open>MCTargetDesc/AVRFixupKinds.h\<close> is not under src/. The spec describes the step as an
  arithmetic right shift by one; the callers comment it as "Rightshifts the value by
  one". Both callers use it where a logical shift gives the same result
  (\<open>signed_shift_small\<close> and \<open>signed_shift_masked\<close> below).
\<close>

definition adjustBranchTarget :: "u64 \<Rightarrow> u64" where
  "adjustBranchTarget val = signed_drop_bit 1 val"

text \<open>
  \<^verbatim>\<open>std::to_string\<close> of the C++ standard library on a signed integer: its decimal
  digits, after a minus sign when it is negative.
\<close>

definition digit_char :: "nat \<Rightarrow> char" where
  "digit_char d = ''0123456789'' ! d"

function to_string_nat :: "nat \<Rightarrow> string" where
  "to_string_nat n =
     (if n < 10 then [digit_char n] else to_string_nat (n div 10) @ [digit_char (n mod 10)])"
  by pat_completeness auto
termination
  by (relation "measure id") auto

declare to_string_nat.simps [simp del]

definition to_string :: "int \<Rightarrow> string" where
  "to_string i = (if i < 0 then CHR ''-'' # to_string_nat (nat (- i)) else to_string_nat (nat i))"

subsection \<open>The \<^verbatim>\<open>adjust\<close> namespace\<close>

text \<open>
  \<open>Ctx\<close> is true when the \<^verbatim>\<open>MCContext *\<close> is not null. The \<^verbatim>\<open>Fixup\<close> argument only
  supplies the location of the diagnostic and is left out.
\<close>

definition signed_width :: "u32 \<Rightarrow> u64 \<Rightarrow> string \<Rightarrow> bool \<Rightarrow> fault + unit" where
  "signed_width Width Value Description Ctx =
     (if \<not> isIntN Width Value then
        (let Diagnostic = ''out of range '' @ Description;
             Min = minIntN Width;
             Max = maxIntN Width;
             Diagnostic = Diagnostic @ '' (expected an integer in the range '' @ to_string Min @
               '' to '' @ to_string Max @ '')''
         in if Ctx then Inl (FatalError Diagnostic) else Inl (Unreachable Diagnostic))
      else Inr ())"

definition unsigned_width :: "u32 \<Rightarrow> u64 \<Rightarrow> string \<Rightarrow> bool \<Rightarrow> fault + unit" where
  "unsigned_width Width Value Description Ctx =
     (if \<not> isUIntN Width Value then
        (let Diagnostic = ''out of range '' @ Description;
             Max = maxUIntN Width;
             Diagnostic = Diagnostic @ '' (expected an integer in the range 0 to '' @
               to_string Max @ '')''
         in if Ctx then Inl (FatalError Diagnostic) else Inl (Unreachable Diagnostic))
      else Inr ())"

definition adjustBranch :: "u32 \<Rightarrow> u64 \<Rightarrow> bool \<Rightarrow> fault + u64" where
  "adjustBranch Size Value Ctx =
     (case unsigned_width (Size + 1) Value ''branch target'' Ctx of
        Inl e \<Rightarrow> Inl e
      | Inr _ \<Rightarrow> Inr (adjustBranchTarget Value))"

definition adjustRelativeBranch :: "u32 \<Rightarrow> u64 \<Rightarrow> bool \<Rightarrow> fault + u64" where
  "adjustRelativeBranch Size Value Ctx =
     (case signed_width (Size + 1) Value ''branch target'' Ctx of
        Inl e \<Rightarrow> Inl e
      | Inr _ \<Rightarrow> Inr (adjustBranchTarget (Value - 2)))"

text \<open>\<^verbatim>\<open>adjust::fixup_call\<close>, the 22-bit absolute fixup.\<close>

definition adjust_fixup_call :: "u32 \<Rightarrow> u64 \<Rightarrow> bool \<Rightarrow> fault + u64" where
  "adjust_fixup_call Size Value Ctx =
     (case adjustBranch Size Value Ctx of
        Inl e \<Rightarrow> Inl e
      | Inr Value1 \<Rightarrow>
          (let top = Value1 AND push_bit 14 0xf;
               middle = Value1 AND push_bit 5 0x1ffff;
               bottom = Value1 AND 0x1f
           in Inr (push_bit 6 top OR push_bit 3 middle OR push_bit 0 bottom)))"

text \<open>\<^verbatim>\<open>adjust::fixup_7_pcrel\<close> and \<^verbatim>\<open>adjust::fixup_13_pcrel\<close>.\<close>

definition adjust_fixup_7_pcrel :: "u32 \<Rightarrow> u64 \<Rightarrow> bool \<Rightarrow> fault + u64" where
  "adjust_fixup_7_pcrel Size Value Ctx =
     (case adjustRelativeBranch Size Value Ctx of
        Inl e \<Rightarrow> Inl e
      | Inr Value1 \<Rightarrow> Inr (Value1 AND 0x7f))"

definition adjust_fixup_13_pcrel :: "u32 \<Rightarrow> u64 \<Rightarrow> bool \<Rightarrow> fault + u64" where
  "adjust_fixup_13_pcrel Size Value Ctx =
     (case adjustRelativeBranch Size Value Ctx of
        Inl e \<Rightarrow> Inl e
      | Inr Value1 \<Rightarrow> Inr (Value1 AND 0xfff))"

definition adjust_fixup_6_adiw :: "u64 \<Rightarrow> bool \<Rightarrow> fault + u64" where
  "adjust_fixup_6_adiw Value Ctx =
     (case unsigned_width 6 Value ''immediate'' Ctx of
        Inl e \<Rightarrow> Inl e
      | Inr _ \<Rightarrow> Inr (push_bit 2 (Value AND 0x30) OR (Value AND 0x0f)))"

definition adjust_fixup_port5 :: "u64 \<Rightarrow> bool \<Rightarrow> fault + u64" where
  "adjust_fixup_port5 Value Ctx =
     (case unsigned_width 5 Value ''port number'' Ctx of
        Inl e \<Rightarrow> Inl e
      | Inr _ \<Rightarrow> Inr (push_bit 3 (Value AND 0x1f)))"

definition adjust_fixup_port6 :: "u64 \<Rightarrow> bool \<Rightarrow> fault + u64" where
  "adjust_fixup_port6 Value Ctx =
     (case unsigned_width 6 Value ''port number'' Ctx of
        Inl e \<Rightarrow> Inl e
      | Inr _ \<Rightarrow> Inr (push_bit 5 (Value AND 0x30) OR (Value AND 0x0f)))"

text \<open>\<^verbatim>\<open>adjust::pm\<close>: \<^verbatim>\<open>Value >>= 1\<close> on the unsigned value.\<close>

definition adjust_pm :: "u64 \<Rightarrow> u64" where
  "adjust_pm Value = drop_bit 1 Value"

text \<open>
  The \<^verbatim>\<open>adjust::ldi\<close> namespace. None of these functions checks a range, so none can
  fail; \<open>Size\<close> and \<open>Ctx\<close> are passed and not used, as in the source.
\<close>

definition ldi_fixup :: "u32 \<Rightarrow> u64 \<Rightarrow> bool \<Rightarrow> u64" where
  "ldi_fixup Size Value Ctx =
     (let upper = Value AND 0xf0;
          lower = Value AND 0x0f
      in push_bit 4 upper OR lower)"

definition ldi_neg :: "u64 \<Rightarrow> u64" where
  "ldi_neg Value = Value * (- 1)"

definition ldi_lo8 :: "u32 \<Rightarrow> u64 \<Rightarrow> bool \<Rightarrow> u64" where
  "ldi_lo8 Size Value Ctx = ldi_fixup Size (Value AND 0xff) Ctx"

definition ldi_hi8 :: "u32 \<Rightarrow> u64 \<Rightarrow> bool \<Rightarrow> u64" where
  "ldi_hi8 Size Value Ctx = ldi_fixup Size (drop_bit 8 (Value AND 0xff00)) Ctx"

definition ldi_hh8 :: "u32 \<Rightarrow> u64 \<Rightarrow> bool \<Rightarrow> u64" where
  "ldi_hh8 Size Value Ctx = ldi_fixup Size (drop_bit 16 (Value AND 0xff0000)) Ctx"

definition ldi_ms8 :: "u32 \<Rightarrow> u64 \<Rightarrow> bool \<Rightarrow> u64" where
  "ldi_ms8 Size Value Ctx = ldi_fixup Size (drop_bit 24 (Value AND 0xff000000)) Ctx"

subsection \<open>\<^verbatim>\<open>AVRAsmBackend::adjustFixupValue\<close>\<close>

definition adjustFixupValue :: "MCFixupKind \<Rightarrow> u64 \<Rightarrow> bool \<Rightarrow> fault + u64" where
  "adjustFixupValue Kind Value Ctx =
     (let Size = TargetSize (getFixupKindInfo Kind) in
      case Kind of
        fixup_7_pcrel \<Rightarrow> adjust_fixup_7_pcrel Size Value Ctx
      | fixup_13_pcrel \<Rightarrow> adjust_fixup_13_pcrel Size Value Ctx
      | fixup_call \<Rightarrow> adjust_fixup_call Size Value Ctx
      | fixup_ldi \<Rightarrow> Inr (ldi_fixup Size Value Ctx)
      | fixup_lo8_ldi \<Rightarrow>
          Inr (ldi_lo8 Size (if Kind = fixup_lo8_ldi_pm then adjust_pm Value else Value) Ctx)
      | fixup_lo8_ldi_pm \<Rightarrow>
          Inr (ldi_lo8 Size (if Kind = fixup_lo8_ldi_pm then adjust_pm Value else Value) Ctx)
      | fixup_hi8_ldi \<Rightarrow>
          Inr (ldi_hi8 Size (if Kind = fixup_hi8_ldi_pm then adjust_pm Value else Value) Ctx)
      | fixup_hi8_ldi_pm \<Rightarrow>
          Inr (ldi_hi8 Size (if Kind = fixup_hi8_ldi_pm then adjust_pm Value else Value) Ctx)
      | fixup_hh8_ldi \<Rightarrow>
          Inr (ldi_hh8 Size (if Kind = fixup_hh8_ldi_pm then adjust_pm Value else Value) Ctx)
      | fixup_hh8_ldi_pm \<Rightarrow>
          Inr (ldi_hh8 Size (if Kind = fixup_hh8_ldi_pm then adjust_pm Value else Value) Ctx)
      | fixup_ms8_ldi \<Rightarrow> Inr (ldi_ms8 Size Value Ctx)
      | fixup_lo8_ldi_neg \<Rightarrow>
          Inr (ldi_lo8 Size
            (ldi_neg (if Kind = fixup_lo8_ldi_pm_neg then adjust_pm Value else Value)) Ctx)
      | fixup_lo8_ldi_pm_neg \<Rightarrow>
          Inr (ldi_lo8 Size
            (ldi_neg (if Kind = fixup_lo8_ldi_pm_neg then adjust_pm Value else Value)) Ctx)
      | fixup_hi8_ldi_neg \<Rightarrow>
          Inr (ldi_hi8 Size
            (ldi_neg (if Kind = fixup_hi8_ldi_pm_neg then adjust_pm Value else Value)) Ctx)
      | fixup_hi8_ldi_pm_neg \<Rightarrow>
          Inr (ldi_hi8 Size
            (ldi_neg (if Kind = fixup_hi8_ldi_pm_neg then adjust_pm Value else Value)) Ctx)
      | fixup_hh8_ldi_neg \<Rightarrow>
          Inr (ldi_hh8 Size
            (ldi_neg (if Kind = fixup_hh8_ldi_pm_neg then adjust_pm Value else Value)) Ctx)
      | fixup_hh8_ldi_pm_neg \<Rightarrow>
          Inr (ldi_hh8 Size
            (ldi_neg (if Kind = fixup_hh8_ldi_pm_neg then adjust_pm Value else Value)) Ctx)
      | fixup_ms8_ldi_neg \<Rightarrow> Inr (ldi_ms8 Size (ldi_neg Value) Ctx)
      | fixup_16 \<Rightarrow>
          (case unsigned_width 16 Value ''port number'' Ctx of
             Inl e \<Rightarrow> Inl e
           | Inr _ \<Rightarrow> Inr (Value AND 0xffff))
      | fixup_6_adiw \<Rightarrow> adjust_fixup_6_adiw Value Ctx
      | fixup_port5 \<Rightarrow> adjust_fixup_port5 Value Ctx
      | fixup_port6 \<Rightarrow> adjust_fixup_port6 Value Ctx
      | FK_Data_2 \<Rightarrow> Inr Value
      | FK_Data_4 \<Rightarrow> Inr Value
      | FK_Data_8 \<Rightarrow> Inr Value
      | FK_GPRel_4 \<Rightarrow> Inl (Unreachable ''don't know how to adjust this fixup'')
      | _ \<Rightarrow> Inl (Unreachable ''unhandled fixup''))"

subsection \<open>\<^verbatim>\<open>AVRAsmBackend::applyFixup\<close>\<close>

text \<open>
  The buffer \<^verbatim>\<open>char *Data\<close> is a list of bytes; \<^verbatim>\<open>DataSize\<close> is passed beside it, as in
  the source. The loop \<^verbatim>\<open>for (unsigned i = 0; i < NumBytes; ++i)\<close> is a recursion on the
  counter. \<^verbatim>\<open>i * 8\<close> and \<^verbatim>\<open>Offset + i\<close> are computed in \<^verbatim>\<open>unsigned\<close> and wrap. The source
  guards neither the shift count nor the store; where C++ leaves them undefined (a count of
  64 or more, a store at or beyond the end of the buffer) the model fails with
  \<open>UndefinedBehaviour\<close>.
\<close>

function applyFixup_loop :: "u32 \<Rightarrow> u32 \<Rightarrow> u32 \<Rightarrow> u64 \<Rightarrow> u8 list \<Rightarrow> fault + u8 list" where
  "applyFixup_loop i NumBytes Offset Value Data =
     (if i < NumBytes then
        (if 64 \<le> i * 8 then Inl (UndefinedBehaviour ''shift count'')
         else
           (let mask = (ucast (drop_bit (unat (i * 8)) Value AND 0xff) :: u8) in
            if unat (Offset + i) < length Data
            then applyFixup_loop (i + 1) NumBytes Offset Value
                   (Data[unat (Offset + i) := Data ! unat (Offset + i) OR mask])
            else Inl (UndefinedBehaviour ''store outside the buffer'')))
      else Inr Data)"
  by pat_completeness auto
termination
proof (relation "measure (\<lambda>(i, NumBytes, Offset, Value, Data). unat NumBytes - unat i)")
  show "wf (measure (\<lambda>(i, NumBytes, Offset, Value, Data). unat NumBytes - unat i))"
    by simp
next
  fix i NumBytes Offset :: u32 and Value :: u64 and Data :: "u8 list" and x :: u8
  assume less: "i < NumBytes"
  have below: "unat i < unat NumBytes"
    using less by (simp add: word_less_nat_alt)
  moreover have "unat NumBytes < 2 ^ 32"
    using unsigned_less [of NumBytes] by simp
  ultimately have "unat (i + 1) = Suc (unat i)"
    by (simp add: unat_word_ariths)
  then show "((i + 1, NumBytes, Offset, Value,
       Data[unat (Offset + i) := Data ! unat (Offset + i) OR x]), i, NumBytes, Offset, Value, Data)
     \<in> measure (\<lambda>(i, NumBytes, Offset, Value, Data). unat NumBytes - unat i)"
    using below by simp
qed

declare applyFixup_loop.simps [simp del]

text \<open>
  The \<^verbatim>\<open>MCFixup\<close> is read through \<^verbatim>\<open>getKind\<close> and \<^verbatim>\<open>getOffset\<close> only; the model takes
  the two values. \<^verbatim>\<open>IsPCRel\<close> is not used by the source. The \<^verbatim>\<open>assert\<close> is modelled as
  enabled.
\<close>

definition applyFixup :: "MCFixupKind \<Rightarrow> u32 \<Rightarrow> u8 list \<Rightarrow> u32 \<Rightarrow> u64 \<Rightarrow> fault + u8 list" where
  "applyFixup Kind Offset Data DataSize Value =
     (if Value = 0 then Inr Data
      else
        (let Info = getFixupKindInfo Kind;
             NumBits = TargetSize Info + TargetOffset Info;
             NumBytes = NumBits div 8 + (if NumBits mod 8 = 0 then 0 else 1)
         in if 64 \<le> TargetOffset Info then Inl (UndefinedBehaviour ''shift count'')
            else
              (let Value1 = push_bit (unat (TargetOffset Info)) Value in
               if \<not> Offset + NumBytes \<le> DataSize
               then Inl (AssertionFailed ''Invalid fixup offset!'')
               else applyFixup_loop 0 NumBytes Offset Value1 Data)))"

subsection \<open>\<^verbatim>\<open>AVRAsmBackend::processFixupValue\<close>\<close>

text \<open>
  The function reads the kind of the fixup and, in its default branch,
  \<^verbatim>\<open>Target.getSymA()->getSymbol().isTemporary()\<close>, and updates \<^verbatim>\<open>Value\<close> and
  \<^verbatim>\<open>IsResolved\<close>, which the model returns as a pair. The \<^verbatim>\<open>Target\<close> is read through
  \<^verbatim>\<open>getSymA()\<close> only: \<open>SymA\<close> is \<open>None\<close> when that pointer is null (a target with no
  symbol A, an absolute value) and \<open>Some t\<close> when it refers to a symbol whose
  \<^verbatim>\<open>isTemporary()\<close> is \<open>t\<close>. The source dereferences the pointer without a check; on a
  null pointer that is undefined behaviour, a failure of the model. The context the
  function passes on, \<^verbatim>\<open>&Asm.getContext()\<close>, is never null.
\<close>

definition processFixupValue ::
  "MCFixupKind \<Rightarrow> bool option \<Rightarrow> u64 \<Rightarrow> bool \<Rightarrow> fault + (u64 \<times> bool)" where
  "processFixupValue Kind SymA Value IsResolved =
     (case Kind of
        fixup_7_pcrel \<Rightarrow> Inr (Value, False)
      | fixup_13_pcrel \<Rightarrow> Inr (Value, False)
      | fixup_call \<Rightarrow> Inr (Value, False)
      | _ \<Rightarrow>
          (case SymA of
             None \<Rightarrow> Inl (UndefinedBehaviour ''null pointer dereference'')
           | Some isTemporary \<Rightarrow>
               (let Value1 = (if isTemporary then Value + 2 else Value) in
                case adjustFixupValue Kind Value1 True of
                  Inl e \<Rightarrow> Inl e
                | Inr Value2 \<Rightarrow> Inr (Value2, IsResolved))))"

subsection \<open>The layouts and the byte span as the specification words them\<close>

text \<open>
  These three definitions follow the words of the specification, not the source; the
  theorems below compare the source's functions with them.

  The absolute-call layout: of the halved 22-bit target, the top 4 bits (bits 18 to 21)
  at bits 22 to 25 of the encoded word, the next 13 bits (bits 5 to 17) at bits 8 to 20,
  the bottom 5 bits at bits 0 to 4.
\<close>

definition claimed_call_layout :: "u64 \<Rightarrow> u64" where
  "claimed_call_layout v =
     push_bit 22 (take_bit 4 (drop_bit 18 v)) OR push_bit 8 (take_bit 13 (drop_bit 5 v)) OR
     take_bit 5 v"

text \<open>
  The load-immediate layout: bits 4 to 7 of the extracted byte at bits 4 to 7 of the high
  byte of the encoded halfword (bits 12 to 15 of the halfword), bits 0 to 3 at bits 0 to 3.
\<close>

definition claimed_ldi_layout :: "u64 \<Rightarrow> u64" where
  "claimed_ldi_layout b = push_bit 12 (take_bit 4 (drop_bit 4 b)) OR take_bit 4 b"

text \<open>The number of bytes a fixup spans: the bit width plus the bit offset, over 8, rounded up.\<close>

definition spannedBytes :: "MCFixupKind \<Rightarrow> nat" where
  "spannedBytes Kind =
     (unat (TargetSize (getFixupKindInfo Kind)) + unat (TargetOffset (getFixupKindInfo Kind)) + 7)
       div 8"

section \<open>Facts about words and the range checks\<close>

lemma mask_numerals:
  "(0xf :: u64) = mask 4" "(0x1f :: u64) = mask 5" "(0x7f :: u64) = mask 7"
  "(0xff :: u64) = mask 8" "(0xfff :: u64) = mask 12" "(0x1ffff :: u64) = mask 17"
  "(0xffff :: u64) = mask 16"
  "(0xf0 :: u64) = push_bit 4 (mask 4)" "(0x30 :: u64) = push_bit 4 (mask 2)"
  "(0xff00 :: u64) = push_bit 8 (mask 8)" "(0xff0000 :: u64) = push_bit 16 (mask 8)"
  "(0xff000000 :: u64) = push_bit 24 (mask 8)"
  by (simp_all add: mask_eq_exp_minus_1)

lemma isUIntN_iff: "isUIntN N v \<longleftrightarrow> uint v < 2 ^ unat N"
  by (simp add: isUIntN_def maxUIntN_def)

lemma isIntN_iff:
  "isIntN N v \<longleftrightarrow> - (2 ^ (unat N - 1)) \<le> sint v \<and> sint v < 2 ^ (unat N - 1)"
  by (auto simp add: isIntN_def maxIntN_def minIntN_def)

lemma uint_less_take_bit: "uint v < 2 ^ n \<Longrightarrow> take_bit n v = v"
  for v :: "'a::len word"
  by (simp add: word_uint_eq_iff unsigned_take_bit_eq take_bit_int_eq_self)

lemma uint_less_not_bit: "uint v < 2 ^ n \<Longrightarrow> n \<le> m \<Longrightarrow> \<not> bit v m"
  for v :: "'a::len word"
  using bit_take_bit_iff [of n v m] by (simp add: uint_less_take_bit)

lemma sint_nonneg_uint: "0 \<le> sint v \<Longrightarrow> uint v = sint v"
  for v :: u64
  using sint_lt [of v] by (simp add: uint_sint take_bit_int_eq_self)

lemma uint_small_sint: "uint v < 2 ^ n \<Longrightarrow> n \<le> 63 \<Longrightarrow> sint v = uint v"
  for v :: u64
proof -
  assume a: "uint v < 2 ^ n" "n \<le> 63"
  have "\<not> bit v 63" using uint_less_not_bit [OF a] .
  then have "0 \<le> sint v" using bit_last_iff [of v] by simp
  then show ?thesis by (simp add: sint_nonneg_uint)
qed

text \<open>An unsigned bound below \<open>2^63\<close>, read on the signed value.\<close>

lemma unsigned_range_iff:
  "n \<le> 63 \<Longrightarrow> uint v < 2 ^ n \<longleftrightarrow> 0 \<le> sint v \<and> sint v < 2 ^ n"
  for v :: u64
  using uint_small_sint [of v n] sint_nonneg_uint [of v] by auto

text \<open>
  The shift of a branch target: \<^verbatim>\<open>val >>= 1\<close> on the unsigned 64-bit value is a logical
  shift, the specification words it as an arithmetic one. Where the source uses it the two
  agree: after the unsigned check the sign bit is clear, and after the signed check the
  result is masked to fewer than 64 bits.
\<close>

lemma signed_shift_small:
  "uint v < 2 ^ n \<Longrightarrow> n \<le> 63 \<Longrightarrow> signed_drop_bit 1 v = drop_bit 1 v"
  for v :: u64
proof (rule bit_word_eqI)
  fix k
  assume a: "uint v < 2 ^ n" "n \<le> 63" "k < LENGTH(64)"
  have "\<not> bit v 63" using uint_less_not_bit [of v n 63] a by simp
  moreover have "\<not> bit v 64" using bit_imp_le_length [of v 64] by auto
  ultimately show "bit (signed_drop_bit 1 v) k = bit (drop_bit 1 v) k"
    using a(3) by (cases "k = 63") (simp_all add: bit_signed_drop_bit_iff bit_drop_bit_eq)
qed

lemma signed_shift_masked:
  "n < 64 \<Longrightarrow> signed_drop_bit 1 v AND mask n = drop_bit 1 v AND mask n"
  for v :: u64
  by (rule bit_word_eqI) (auto simp add: bit_simps)

lemmas to_string_eval = to_string_def to_string_nat.simps digit_char_def

lemma unsigned_width_eq:
  "unsigned_width Width Value Description Ctx =
     (if uint Value < 2 ^ unat Width then Inr ()
      else Inl ((if Ctx then FatalError else Unreachable)
        (''out of range '' @ Description @ '' (expected an integer in the range 0 to '' @
          to_string (2 ^ unat Width - 1) @ '')'')))"
  by (simp add: unsigned_width_def isUIntN_iff maxUIntN_def Let_def)

lemma signed_width_eq:
  "signed_width Width Value Description Ctx =
     (if - (2 ^ (unat Width - 1)) \<le> sint Value \<and> sint Value < 2 ^ (unat Width - 1) then Inr ()
      else Inl ((if Ctx then FatalError else Unreachable)
        (''out of range '' @ Description @ '' (expected an integer in the range '' @
          to_string (- (2 ^ (unat Width - 1))) @ '' to '' @
          to_string (2 ^ (unat Width - 1) - 1) @ '')'')))"
  by (simp add: signed_width_def isIntN_iff maxIntN_def minIntN_def Let_def)

subsection \<open>What \<^verbatim>\<open>adjustFixupValue\<close> computes for each range-checked kind\<close>

lemma adjust_call_eq:
  "adjustFixupValue fixup_call Value Ctx =
     (if uint Value < 2 ^ 23
      then Inr (push_bit 6 (drop_bit 1 Value AND push_bit 14 0xf) OR
                push_bit 3 (drop_bit 1 Value AND push_bit 5 0x1ffff) OR
                (drop_bit 1 Value AND 0x1f))
      else Inl ((if Ctx then FatalError else Unreachable)
        ''out of range branch target (expected an integer in the range 0 to 8388607)''))"
  by (simp add: adjustFixupValue_def getFixupKindInfo_def adjust_fixup_call_def adjustBranch_def
      unsigned_width_eq adjustBranchTarget_def to_string_eval
      signed_shift_small [of _ 23, simplified] Let_def)

lemma adjust_7_pcrel_eq:
  "adjustFixupValue fixup_7_pcrel Value Ctx =
     (if - 128 \<le> sint Value \<and> sint Value < 128
      then Inr (signed_drop_bit 1 (Value - 2) AND 0x7f)
      else Inl ((if Ctx then FatalError else Unreachable)
        ''out of range branch target (expected an integer in the range -128 to 127)''))"
  by (simp add: adjustFixupValue_def getFixupKindInfo_def adjust_fixup_7_pcrel_def
      adjustRelativeBranch_def signed_width_eq adjustBranchTarget_def to_string_eval)

lemma adjust_13_pcrel_eq:
  "adjustFixupValue fixup_13_pcrel Value Ctx =
     (if - 4096 \<le> sint Value \<and> sint Value < 4096
      then Inr (signed_drop_bit 1 (Value - 2) AND 0xfff)
      else Inl ((if Ctx then FatalError else Unreachable)
        ''out of range branch target (expected an integer in the range -4096 to 4095)''))"
  by (simp add: adjustFixupValue_def getFixupKindInfo_def adjust_fixup_13_pcrel_def
      adjustRelativeBranch_def signed_width_eq adjustBranchTarget_def to_string_eval)

lemma adjust_16_eq:
  "adjustFixupValue fixup_16 Value Ctx =
     (if uint Value < 2 ^ 16 then Inr (Value AND 0xffff)
      else Inl ((if Ctx then FatalError else Unreachable)
        ''out of range port number (expected an integer in the range 0 to 65535)''))"
  by (simp add: adjustFixupValue_def unsigned_width_eq to_string_eval)

lemma adjust_6_adiw_eq:
  "adjustFixupValue fixup_6_adiw Value Ctx =
     (if uint Value < 2 ^ 6 then Inr (push_bit 2 (Value AND 0x30) OR (Value AND 0x0f))
      else Inl ((if Ctx then FatalError else Unreachable)
        ''out of range immediate (expected an integer in the range 0 to 63)''))"
  by (simp add: adjustFixupValue_def adjust_fixup_6_adiw_def unsigned_width_eq to_string_eval)

lemma adjust_port5_eq:
  "adjustFixupValue fixup_port5 Value Ctx =
     (if uint Value < 2 ^ 5 then Inr (push_bit 3 (Value AND 0x1f))
      else Inl ((if Ctx then FatalError else Unreachable)
        ''out of range port number (expected an integer in the range 0 to 31)''))"
  by (simp add: adjustFixupValue_def adjust_fixup_port5_def unsigned_width_eq to_string_eval)

lemma adjust_port6_eq:
  "adjustFixupValue fixup_port6 Value Ctx =
     (if uint Value < 2 ^ 6 then Inr (push_bit 5 (Value AND 0x30) OR (Value AND 0x0f))
      else Inl ((if Ctx then FatalError else Unreachable)
        ''out of range port number (expected an integer in the range 0 to 63)''))"
  by (simp add: adjustFixupValue_def adjust_fixup_port6_def unsigned_width_eq to_string_eval)

section \<open>The claims\<close>

subsection \<open>Negation before byte extraction\<close>

text \<open>
  C8. For each byte-extraction kind (lo8, hi8, hh8, ms8) the negation is applied to the
  full-width value before the byte is extracted: adjusting the negated variant of the kind
  on \<open>V\<close> gives the same encoded result as adjusting the plain variant on \<open>- V\<close>, for every
  64-bit \<open>V\<close>, and that result is the re-split byte extracted from \<open>- V\<close>.
\<close>

theorem negation_before_extraction:
  "adjustFixupValue fixup_lo8_ldi_neg V Ctx = adjustFixupValue fixup_lo8_ldi (- V) Ctx \<and>
   adjustFixupValue fixup_hi8_ldi_neg V Ctx = adjustFixupValue fixup_hi8_ldi (- V) Ctx \<and>
   adjustFixupValue fixup_hh8_ldi_neg V Ctx = adjustFixupValue fixup_hh8_ldi (- V) Ctx \<and>
   adjustFixupValue fixup_ms8_ldi_neg V Ctx = adjustFixupValue fixup_ms8_ldi (- V) Ctx \<and>
   adjustFixupValue fixup_lo8_ldi_neg V Ctx = Inr (ldi_fixup 8 ((- V) AND 0xff) Ctx) \<and>
   adjustFixupValue fixup_hi8_ldi_neg V Ctx = Inr (ldi_fixup 8 (drop_bit 8 ((- V) AND 0xff00)) Ctx) \<and>
   adjustFixupValue fixup_hh8_ldi_neg V Ctx =
     Inr (ldi_fixup 8 (drop_bit 16 ((- V) AND 0xff0000)) Ctx) \<and>
   adjustFixupValue fixup_ms8_ldi_neg V Ctx =
     Inr (ldi_fixup 8 (drop_bit 24 ((- V) AND 0xff000000)) Ctx)"
  by (simp add: adjustFixupValue_def getFixupKindInfo_def ldi_neg_def ldi_lo8_def ldi_hi8_def
      ldi_hh8_def ldi_ms8_def)

text \<open>
  The program-memory variants halve first and negate the halved value, still before the
  extraction.
\<close>

lemma negation_after_halving:
  "adjustFixupValue fixup_lo8_ldi_pm_neg V Ctx = adjustFixupValue fixup_lo8_ldi (- drop_bit 1 V) Ctx \<and>
   adjustFixupValue fixup_hi8_ldi_pm_neg V Ctx = adjustFixupValue fixup_hi8_ldi (- drop_bit 1 V) Ctx \<and>
   adjustFixupValue fixup_hh8_ldi_pm_neg V Ctx = adjustFixupValue fixup_hh8_ldi (- drop_bit 1 V) Ctx"
  by (simp add: adjustFixupValue_def getFixupKindInfo_def ldi_neg_def adjust_pm_def)

text \<open>The order matters: extracting the high byte of 1 and negating the byte gives 0.\<close>

lemma extraction_before_negation_differs:
  "adjustFixupValue fixup_hi8_ldi_neg 1 True = Inr 0xf0f \<and>
   ldi_fixup 8 (ldi_neg (drop_bit 8 (1 AND 0xff00))) True = 0"
  by (simp add: adjustFixupValue_def getFixupKindInfo_def ldi_neg_def ldi_hi8_def ldi_fixup_def)

subsection \<open>The PC-relative branches\<close>

text \<open>
  C5. For the 7-bit and the 12-bit PC-relative branch fixups, \<open>adjustFixupValue\<close> checks
  that the raw displacement, read as a signed number, fits a signed field of \<open>Size + 1\<close>
  bits (8 and 13), subtracts 2, shifts right by one arithmetically and masks with \<open>0x7F\<close>
  and \<open>0xFFF\<close>; a failed check is the diagnostic. The displacement 0 of a 7-bit branch
  from PC 100 to target 100 is adjusted to \<open>0x7F\<close>.
\<close>

theorem pcrel_branch_adjust:
  "adjustFixupValue fixup_7_pcrel Value Ctx =
     (if isIntN (TargetSize (getFixupKindInfo fixup_7_pcrel) + 1) Value
      then Inr (signed_drop_bit 1 (Value - 2) AND 0x7f)
      else Inl ((if Ctx then FatalError else Unreachable)
        ''out of range branch target (expected an integer in the range -128 to 127)'')) \<and>
   adjustFixupValue fixup_13_pcrel Value Ctx =
     (if isIntN (TargetSize (getFixupKindInfo fixup_13_pcrel) + 1) Value
      then Inr (signed_drop_bit 1 (Value - 2) AND 0xfff)
      else Inl ((if Ctx then FatalError else Unreachable)
        ''out of range branch target (expected an integer in the range -4096 to 4095)'')) \<and>
   TargetSize (getFixupKindInfo fixup_7_pcrel) + 1 = 8 \<and>
   TargetSize (getFixupKindInfo fixup_13_pcrel) + 1 = 13 \<and>
   (isIntN 8 Value \<longleftrightarrow> - (2 ^ 7) \<le> sint Value \<and> sint Value \<le> 2 ^ 7 - 1) \<and>
   (isIntN 13 Value \<longleftrightarrow> - (2 ^ 12) \<le> sint Value \<and> sint Value \<le> 2 ^ 12 - 1) \<and>
   adjustFixupValue fixup_7_pcrel (100 - 100) Ctx = Inr 0x7f"
  by (auto simp add: adjust_7_pcrel_eq adjust_13_pcrel_eq getFixupKindInfo_def isIntN_iff)

theorem pcrel_branch_adjust_witness:
  "adjustFixupValue fixup_7_pcrel 0 True = Inr 0x7f \<and>
   adjustFixupValue fixup_7_pcrel 128 True = Inl (FatalError
     ''out of range branch target (expected an integer in the range -128 to 127)'') \<and>
   adjustFixupValue fixup_13_pcrel (- 4096) False = Inr 0x7ff"
  using pcrel_branch_adjust [of 0 True] pcrel_branch_adjust [of 128 True]
    pcrel_branch_adjust [of "- 4096" False]
  by (simp add: isIntN_iff)

text \<open>The logical shift of the unsigned value gives the same masked results.\<close>

lemma pcrel_logical_shift:
  "signed_drop_bit 1 (Value - 2) AND (0x7f :: u64) = drop_bit 1 (Value - 2) AND 0x7f \<and>
   signed_drop_bit 1 (Value - 2) AND (0xfff :: u64) = drop_bit 1 (Value - 2) AND 0xfff"
  using signed_shift_masked [of 7 "Value - 2"] signed_shift_masked [of 12 "Value - 2"]
  by (simp add: mask_numerals)

subsection \<open>The diagnostic of the 16-bit data fixup\<close>

text \<open>
  C10. When the value of a \<open>fixup_16\<close> fails its unsigned 16-bit range check (it is above
  65535) and a diagnostic context is supplied, the fatal diagnostic is exactly
  "out of range port number (expected an integer in the range 0 to 65535)".
\<close>

theorem fixup_16_diagnostic:
  "\<not> isUIntN 16 Value \<Longrightarrow>
   adjustFixupValue fixup_16 Value True =
     Inl (FatalError ''out of range port number (expected an integer in the range 0 to 65535)'')"
  by (simp add: adjust_16_eq isUIntN_iff)

theorem fixup_16_diagnostic_witness:
  "\<not> isUIntN 16 65536 \<and>
   adjustFixupValue fixup_16 65536 True =
     Inl (FatalError ''out of range port number (expected an integer in the range 0 to 65535)'')"
  using fixup_16_diagnostic [of 65536] by (simp add: isUIntN_iff)

subsection \<open>The resolution policy\<close>

text \<open>
  What \<open>processFixupValue\<close> does, case by case. The three branch-target kinds (7-bit
  PC-relative, 13-bit PC-relative, absolute call) are deferred: marked unresolved, the
  value left as it is, whatever the flag was on entry and whatever the target. Every
  other kind, on a target that refers to a symbol A, is handed to \<open>adjustFixupValue\<close> at
  once, with the diagnostic context, after 2 is added when the symbol is a temporary
  label; the flag is left as the caller set it. Every other kind, on a target with no
  symbol A, dereferences the null pointer before the adjuster is reached.
\<close>

lemma processFixupValue_cases:
  "(Kind = fixup_7_pcrel \<or> Kind = fixup_13_pcrel \<or> Kind = fixup_call \<longrightarrow>
      processFixupValue Kind SymA Value IsResolved = Inr (Value, False)) \<and>
   (Kind \<noteq> fixup_7_pcrel \<and> Kind \<noteq> fixup_13_pcrel \<and> Kind \<noteq> fixup_call \<longrightarrow>
      processFixupValue Kind (Some isTemporary) Value IsResolved =
        (case adjustFixupValue Kind (if isTemporary then Value + 2 else Value) True of
           Inl e \<Rightarrow> Inl e
         | Inr Value2 \<Rightarrow> Inr (Value2, IsResolved))) \<and>
   (Kind \<noteq> fixup_7_pcrel \<and> Kind \<noteq> fixup_13_pcrel \<and> Kind \<noteq> fixup_call \<longrightarrow>
      processFixupValue Kind None Value IsResolved =
        Inl (UndefinedBehaviour ''null pointer dereference''))"
  by (cases Kind) (simp_all add: processFixupValue_def)

lemma processFixupValue_examples:
  "processFixupValue fixup_call (Some True) 0x100 True = Inr (0x100, False) \<and>
   processFixupValue fixup_call None 0x100 True = Inr (0x100, False) \<and>
   processFixupValue fixup_lo8_ldi (Some True) 0x1232 True = Inr (0x304, True) \<and>
   processFixupValue fixup_lo8_ldi (Some False) 0x1234 False = Inr (0x304, False) \<and>
   processFixupValue fixup_32 (Some False) 0x1234 True = Inl (Unreachable ''unhandled fixup'')"
  by (simp add: processFixupValue_def adjustFixupValue_def getFixupKindInfo_def ldi_lo8_def
      ldi_fixup_def)

text \<open>
  C7. The claim: \<open>processFixupValue\<close> always defers the three branch-target kinds, and for
  every other fixup kind it resolves at once, adding 2 to the raw value when the
  referenced symbol is a temporary label and then adjusting the value. The source reads
  \<^verbatim>\<open>Target.getSymA()->getSymbol().isTemporary()\<close> with no check that the target has a
  symbol A. For a \<open>lo8\<close> load-immediate fixup on a target with no symbol A and the value
  \<open>0x1234\<close> the claim gives the adjusted value \<open>0x304\<close> (no temporary label, so nothing
  is added); the source dereferences a null pointer and does not reach the adjuster.
\<close>

theorem processFixupValue_null_symbol:
  "processFixupValue fixup_lo8_ldi None 0x1234 True =
     Inl (UndefinedBehaviour ''null pointer dereference'') \<and>
   adjustFixupValue fixup_lo8_ldi 0x1234 True = Inr 0x304"
  by (simp add: processFixupValue_def adjustFixupValue_def getFixupKindInfo_def ldi_lo8_def
      ldi_fixup_def)

subsection \<open>The range checks and the declared widths\<close>

text \<open>
  The claim C2 as worded, that a range-checked kind of declared width \<open>W\<close> is accepted
  exactly on \<open>0 \<le> value < 2^W\<close>, fails for the absolute call: its declared width is 22
  and the byte address \<open>2^22\<close> is accepted, because the check is made on \<open>Size + 1\<close> bits
  ("one extra bit of precision because the value is rightshifted by one").
\<close>

theorem declared_width_check_counterexample:
  "TargetSize (getFixupKindInfo fixup_call) = 22 \<and>
   adjustFixupValue fixup_call 4194304 True = Inr 0x1000000 \<and>
   \<not> (4194304 :: int) < 2 ^ 22"
  by (simp add: adjust_call_eq getFixupKindInfo_def)

text \<open>
  The same on the signed side (a 7-bit branch accepts 100, outside \<open>-2^6 \<dots> 2^6 - 1\<close>), and
  in the other direction for the 6-bit port, whose declared width is that of the whole
  instruction (16) and whose check is on 6 bits.
\<close>

lemma declared_width_check_more:
  "TargetSize (getFixupKindInfo fixup_7_pcrel) = 7 \<and>
   adjustFixupValue fixup_7_pcrel 100 True = Inr 49 \<and> \<not> (100 :: int) < 2 ^ (7 - 1) \<and>
   TargetSize (getFixupKindInfo fixup_port6) = 16 \<and>
   adjustFixupValue fixup_port6 64 True = Inl (FatalError
     ''out of range port number (expected an integer in the range 0 to 63)'') \<and>
   (64 :: int) < 2 ^ 16"
  by (simp add: adjust_7_pcrel_eq adjust_port6_eq getFixupKindInfo_def)

text \<open>
  C2, amended. With the value read as a signed 64-bit number and \<open>W\<close> the declared width of
  the kind: \<open>fixup_16\<close>, \<open>fixup_6_adiw\<close> and \<open>fixup_port5\<close> are accepted exactly on
  \<open>0 \<le> value < 2^W\<close>; \<open>fixup_port6\<close> (declared 16) exactly on \<open>0 \<le> value < 2^6\<close>;
  \<open>fixup_call\<close> exactly on \<open>0 \<le> value < 2^(W+1)\<close>; the signed kinds \<open>fixup_7_pcrel\<close> and
  \<open>fixup_13_pcrel\<close> exactly on \<open>-2^W \<le> value < 2^W\<close>, the range of a signed field of
  \<open>W + 1\<close> bits. This holds with and without a diagnostic context.
\<close>

theorem range_check_exact:
  "((\<exists>r. adjustFixupValue fixup_16 Value Ctx = Inr r) \<longleftrightarrow>
      0 \<le> sint Value \<and> sint Value < 2 ^ unat (TargetSize (getFixupKindInfo fixup_16))) \<and>
   ((\<exists>r. adjustFixupValue fixup_6_adiw Value Ctx = Inr r) \<longleftrightarrow>
      0 \<le> sint Value \<and> sint Value < 2 ^ unat (TargetSize (getFixupKindInfo fixup_6_adiw))) \<and>
   ((\<exists>r. adjustFixupValue fixup_port5 Value Ctx = Inr r) \<longleftrightarrow>
      0 \<le> sint Value \<and> sint Value < 2 ^ unat (TargetSize (getFixupKindInfo fixup_port5))) \<and>
   ((\<exists>r. adjustFixupValue fixup_port6 Value Ctx = Inr r) \<longleftrightarrow>
      0 \<le> sint Value \<and> sint Value < 2 ^ 6) \<and>
   ((\<exists>r. adjustFixupValue fixup_call Value Ctx = Inr r) \<longleftrightarrow>
      0 \<le> sint Value \<and>
      sint Value < 2 ^ (unat (TargetSize (getFixupKindInfo fixup_call)) + 1)) \<and>
   ((\<exists>r. adjustFixupValue fixup_7_pcrel Value Ctx = Inr r) \<longleftrightarrow>
      - (2 ^ unat (TargetSize (getFixupKindInfo fixup_7_pcrel))) \<le> sint Value \<and>
      sint Value < 2 ^ unat (TargetSize (getFixupKindInfo fixup_7_pcrel))) \<and>
   ((\<exists>r. adjustFixupValue fixup_13_pcrel Value Ctx = Inr r) \<longleftrightarrow>
      - (2 ^ unat (TargetSize (getFixupKindInfo fixup_13_pcrel))) \<le> sint Value \<and>
      sint Value < 2 ^ unat (TargetSize (getFixupKindInfo fixup_13_pcrel)))"
  using unsigned_range_iff [of 16 Value] unsigned_range_iff [of 6 Value]
    unsigned_range_iff [of 5 Value] unsigned_range_iff [of 23 Value]
  by (simp add: adjust_16_eq adjust_6_adiw_eq adjust_port5_eq adjust_port6_eq adjust_call_eq
      adjust_7_pcrel_eq adjust_13_pcrel_eq getFixupKindInfo_def)

theorem range_check_exact_witness:
  "(\<exists>r. adjustFixupValue fixup_call 8388607 True = Inr r) \<and>
   \<not> (\<exists>r. adjustFixupValue fixup_call 8388608 True = Inr r) \<and>
   (\<exists>r. adjustFixupValue fixup_7_pcrel (- 128) True = Inr r) \<and>
   \<not> (\<exists>r. adjustFixupValue fixup_7_pcrel 128 True = Inr r) \<and>
   \<not> (\<exists>r. adjustFixupValue fixup_port6 64 False = Inr r)"
  using range_check_exact [of 8388607 True] range_check_exact [of 8388608 True]
    range_check_exact [of "- 128" True] range_check_exact [of 128 True]
    range_check_exact [of 64 False]
  by (simp add: getFixupKindInfo_def)

subsection \<open>The absolute call\<close>

text \<open>
  C1. The claim: the 22-bit absolute call fixup checks the byte address against 23
  unsigned bits, halves it, and places the top 4 bits of the halved value at bits 22 to
  25, the next 13 bits at bits 8 to 20 and the bottom 5 bits at bits 0 to 4. The source
  comments its three fields as "the top four bits", "the middle 13 bits" and the "bottom 5
  bits", but masks the first with \<^verbatim>\<open>0xf << 14\<close> (bits 14 to 17) and the second with
  \<^verbatim>\<open>0x1ffff << 5\<close> (17 bits, 5 to 21). At the byte address \<open>0x80000\<close>, whose halved
  value has only bit 18 set (the lowest of its top four bits), the source gives bit 21,
  the claimed layout bit 22.
\<close>

theorem call_layout_divergence:
  "adjustFixupValue fixup_call 0x80000 True = Inr 0x200000 \<and>
   claimed_call_layout (drop_bit 1 0x80000) = 0x400000 \<and>
   adjustFixupValue fixup_call 0x80000 True \<noteq> Inr (claimed_call_layout (drop_bit 1 0x80000))"
  by (simp add: adjust_call_eq claimed_call_layout_def)

text \<open>
  What the source does as the claim says: the check on 23 bits, the halving, the bottom
  five bits in place, bits 5 to 7 of the encoded word clear, and bits 5 to 16 of the
  halved value at bits 8 to 19.
\<close>

lemma call_fields:
  fixes v :: u64
  defines "r \<equiv> push_bit 6 (v AND push_bit 14 0xf) OR push_bit 3 (v AND push_bit 5 0x1ffff) OR
    (v AND 0x1f)"
  shows "take_bit 5 r = take_bit 5 v \<and> \<not> bit r 5 \<and> \<not> bit r 6 \<and> \<not> bit r 7 \<and>
    take_bit 12 (drop_bit 8 r) = take_bit 12 (drop_bit 5 v)"
proof -
  have "take_bit 5 r = take_bit 5 v"
    unfolding r_def mask_numerals by (rule bit_word_eqI) (auto simp add: bit_simps)
  moreover have "\<not> bit r 5" "\<not> bit r 6" "\<not> bit r 7"
    unfolding r_def mask_numerals by (simp_all add: bit_simps)
  moreover have "take_bit 12 (drop_bit 8 r) = take_bit 12 (drop_bit 5 v)"
    unfolding r_def mask_numerals by (rule bit_word_eqI) (auto simp add: bit_simps)
  ultimately show ?thesis by simp
qed

text \<open>
  The layout the source computes, bit by bit: bits 0 to 4 stay, bits 5 to 21 move up by 3
  and bits 14 to 17 move up by 6, so bits 20 to 23 of the encoded word are the OR of two
  fields.
\<close>

lemma call_actual_layout:
  fixes v :: u64
  defines "r \<equiv> push_bit 6 (v AND push_bit 14 0xf) OR push_bit 3 (v AND push_bit 5 0x1ffff) OR
    (v AND 0x1f)"
  shows "bit r n \<longleftrightarrow>
    (n < 5 \<and> bit v n) \<or> (8 \<le> n \<and> n < 25 \<and> bit v (n - 3)) \<or>
    (20 \<le> n \<and> n < 24 \<and> bit v (n - 6))"
  unfolding r_def mask_numerals by (auto simp add: bit_simps)

lemma adjust_call_low_fields:
  "uint Value < 2 ^ 23 \<Longrightarrow>
   \<exists>r. adjustFixupValue fixup_call Value Ctx = Inr r \<and>
     take_bit 5 r = take_bit 5 (drop_bit 1 Value) \<and> \<not> bit r 5 \<and> \<not> bit r 6 \<and> \<not> bit r 7 \<and>
     take_bit 12 (drop_bit 8 r) = take_bit 12 (drop_bit 5 (drop_bit 1 Value))"
  using call_fields [of "drop_bit 1 Value"] by (simp only: adjust_call_eq if_True) blast

text \<open>
  C3. The claim: for every in-range value of the absolute call, the fields of the encoded
  word can be decoded and reassembled into the halved target. The source's two upper
  fields overlap after their shifts (bits 20 to 23 of the encoded word receive both), so
  the encoding is not injective: the in-range byte addresses \<open>0x48000\<close> and \<open>0x208000\<close>
  have different halved targets and the same encoded word, and no decoding returns both.
\<close>

theorem call_encoding_collision:
  "adjustFixupValue fixup_call 0x48000 True = Inr 0x920000 \<and>
   adjustFixupValue fixup_call 0x208000 True = Inr 0x920000 \<and>
   drop_bit 1 (0x48000 :: u64) = 0x24000 \<and> drop_bit 1 (0x208000 :: u64) = 0x104000"
  by (simp add: adjust_call_eq)

text \<open>Hence no function of the encoded word returns the halved target on the whole range.\<close>

lemma call_encoding_not_decodable:
  "\<not> (\<exists>decode. \<forall>Value r.
        uint Value < 2 ^ 23 \<and> adjustFixupValue fixup_call Value True = Inr r \<longrightarrow>
        decode r = drop_bit 1 Value)"
proof
  assume "\<exists>decode. \<forall>Value r.
    uint Value < 2 ^ 23 \<and> adjustFixupValue fixup_call Value True = Inr r \<longrightarrow>
    decode r = drop_bit 1 Value"
  then obtain decode :: "u64 \<Rightarrow> u64" where
    d: "\<And>Value r. uint Value < 2 ^ 23 \<Longrightarrow> adjustFixupValue fixup_call Value True = Inr r \<Longrightarrow>
        decode r = drop_bit 1 Value"
    by blast
  have a: "adjustFixupValue fixup_call 0x48000 True = Inr 0x920000"
    and b: "adjustFixupValue fixup_call 0x208000 True = Inr 0x920000"
    by (simp_all add: adjust_call_eq)
  have "decode 0x920000 = drop_bit 1 0x48000" by (rule d [OF _ a]) simp
  moreover have "decode 0x920000 = drop_bit 1 0x208000" by (rule d [OF _ b]) simp
  ultimately show False by simp
qed

subsection \<open>The load-immediate family\<close>

lemma ldi_fixup_eq:
  "ldi_fixup Size b Ctx = push_bit 8 (take_bit 4 (drop_bit 4 b)) OR take_bit 4 b"
  unfolding ldi_fixup_def Let_def mask_numerals
  by (rule bit_word_eqI) (auto simp add: bit_simps)

lemma byte_extract:
  "(V :: u64) AND 0xff = take_bit 8 V"
  "drop_bit 8 (V AND 0xff00) = take_bit 8 (drop_bit 8 V)"
  "drop_bit 16 (V AND 0xff0000) = take_bit 8 (drop_bit 16 V)"
  "drop_bit 24 (V AND 0xff000000) = take_bit 8 (drop_bit 24 V)"
  unfolding mask_numerals
  by (rule bit_word_eqI; auto simp add: bit_simps)+

lemma ldi_fixup_low_byte: "ldi_fixup Size V Ctx = ldi_fixup Size' (take_bit 8 V) Ctx'"
  unfolding ldi_fixup_def Let_def mask_numerals
  by (rule bit_word_eqI) (auto simp add: bit_simps)

text \<open>
  The claim C6 as worded puts bits 4 to 7 of the extracted byte at bits 4 to 7 of the high
  byte of the halfword, that is at bits 12 to 15. The source shifts them by 4, to bits 8
  to 11 ("0000 KKKK 0000 KKKK"): the byte \<open>0x10\<close> is encoded as \<open>0x100\<close>, not \<open>0x1000\<close>.
\<close>

theorem ldi_layout_counterexample:
  "adjustFixupValue fixup_lo8_ldi 0x10 True = Inr 0x100 \<and>
   claimed_ldi_layout (0x10 AND 0xff) = 0x1000 \<and>
   adjustFixupValue fixup_lo8_ldi 0x10 True \<noteq> Inr (claimed_ldi_layout (0x10 AND 0xff))"
  by (simp add: adjustFixupValue_def getFixupKindInfo_def ldi_lo8_def ldi_fixup_def
      claimed_ldi_layout_def)

text \<open>
  C6, amended. In the load-immediate family the extracted byte is re-split so that its
  bits 4 to 7 move to bits 0 to 3 of the high byte of the encoded halfword (bits 8 to 11
  of the halfword) and its bits 0 to 3 stay at bits 0 to 3; nothing else is set. Every
  kind of the family is this re-split of one byte: byte 0, 1, 2 or 3 of the value, of its
  negation, of its half, or of the negation of its half.
\<close>

theorem ldi_resplit:
  "ldi_fixup Size b Ctx = push_bit 8 (take_bit 4 (drop_bit 4 b)) OR take_bit 4 b \<and>
   adjustFixupValue fixup_ldi V Ctx = Inr (ldi_fixup 8 (take_bit 8 V) Ctx) \<and>
   adjustFixupValue fixup_lo8_ldi V Ctx = Inr (ldi_fixup 8 (take_bit 8 V) Ctx) \<and>
   adjustFixupValue fixup_hi8_ldi V Ctx = Inr (ldi_fixup 8 (take_bit 8 (drop_bit 8 V)) Ctx) \<and>
   adjustFixupValue fixup_hh8_ldi V Ctx = Inr (ldi_fixup 8 (take_bit 8 (drop_bit 16 V)) Ctx) \<and>
   adjustFixupValue fixup_ms8_ldi V Ctx = Inr (ldi_fixup 8 (take_bit 8 (drop_bit 24 V)) Ctx) \<and>
   adjustFixupValue fixup_lo8_ldi_neg V Ctx = Inr (ldi_fixup 8 (take_bit 8 (- V)) Ctx) \<and>
   adjustFixupValue fixup_hi8_ldi_neg V Ctx =
     Inr (ldi_fixup 8 (take_bit 8 (drop_bit 8 (- V))) Ctx) \<and>
   adjustFixupValue fixup_hh8_ldi_neg V Ctx =
     Inr (ldi_fixup 8 (take_bit 8 (drop_bit 16 (- V))) Ctx) \<and>
   adjustFixupValue fixup_ms8_ldi_neg V Ctx =
     Inr (ldi_fixup 8 (take_bit 8 (drop_bit 24 (- V))) Ctx) \<and>
   adjustFixupValue fixup_lo8_ldi_pm V Ctx = Inr (ldi_fixup 8 (take_bit 8 (drop_bit 1 V)) Ctx) \<and>
   adjustFixupValue fixup_hi8_ldi_pm V Ctx =
     Inr (ldi_fixup 8 (take_bit 8 (drop_bit 8 (drop_bit 1 V))) Ctx) \<and>
   adjustFixupValue fixup_hh8_ldi_pm V Ctx =
     Inr (ldi_fixup 8 (take_bit 8 (drop_bit 16 (drop_bit 1 V))) Ctx) \<and>
   adjustFixupValue fixup_lo8_ldi_pm_neg V Ctx =
     Inr (ldi_fixup 8 (take_bit 8 (- drop_bit 1 V)) Ctx) \<and>
   adjustFixupValue fixup_hi8_ldi_pm_neg V Ctx =
     Inr (ldi_fixup 8 (take_bit 8 (drop_bit 8 (- drop_bit 1 V))) Ctx) \<and>
   adjustFixupValue fixup_hh8_ldi_pm_neg V Ctx =
     Inr (ldi_fixup 8 (take_bit 8 (drop_bit 16 (- drop_bit 1 V))) Ctx)"
  using ldi_fixup_eq [of Size b Ctx] ldi_fixup_low_byte [of 8 V Ctx 8 Ctx]
  by (simp only: adjustFixupValue_def getFixupKindInfo_def ldi_neg_def ldi_lo8_def ldi_hi8_def
      ldi_hh8_def ldi_ms8_def adjust_pm_def byte_extract Let_def MCFixupKind.simps
      isGenericKind.simps Infos.simps MCFixupKindInfo.simps if_False if_True simp_thms
      mult_minus1_right)

text \<open>The scenario of the specification: \<open>lo8\<close> of \<open>0x1234\<close> is the byte \<open>0x34\<close>, encoded \<open>0x304\<close>.\<close>

lemma lo8_ldi_scenario: "adjustFixupValue fixup_lo8_ldi 0x1234 Ctx = Inr 0x304"
  by (simp add: adjustFixupValue_def getFixupKindInfo_def ldi_lo8_def ldi_fixup_def)

subsection \<open>The applier\<close>

text \<open>
  For every kind the bit offset is below 64, the source's \<^verbatim>\<open>NumBytes\<close> is the rounded-up
  quotient \<open>spannedBytes\<close>, and at most 8 bytes are spanned, so no shift count of the loop
  reaches 64.
\<close>

lemma kind_span:
  "TargetOffset (getFixupKindInfo K) < 64 \<and>
   (let NumBits = TargetSize (getFixupKindInfo K) + TargetOffset (getFixupKindInfo K)
    in NumBits div 8 + (if NumBits mod 8 = 0 then 0 else 1)) = of_nat (spannedBytes K) \<and>
   spannedBytes K \<le> 8"
  by (cases K) (simp_all add: getFixupKindInfo_def spannedBytes_def)

lemma ucast_low_byte: "(ucast (x AND 0xff :: u64) :: u8) = ucast x"
  unfolding mask_numerals by (rule bit_word_eqI) (auto simp add: bit_simps)

text \<open>
  The loop, started at \<open>i\<close> on a buffer that holds the whole span: it returns, keeps the
  length, leaves every byte outside \<open>[Offset + i, Offset + NumBytes)\<close> as it was and ORs
  byte \<open>j - Offset\<close> of the value into byte \<open>j\<close> inside.
\<close>

lemma applyFixup_loop_spec:
  "unat Offset + unat NumBytes \<le> length Data \<Longrightarrow> length Data < 2 ^ 32 \<Longrightarrow> NumBytes \<le> 8 \<Longrightarrow>
   \<exists>Data'. applyFixup_loop i NumBytes Offset Value Data = Inr Data' \<and>
     length Data' = length Data \<and>
     (\<forall>j. j < unat Offset + unat i \<or> unat Offset + unat NumBytes \<le> j \<longrightarrow>
        Data' ! j = Data ! j) \<and>
     (\<forall>j. unat Offset + unat i \<le> j \<and> j < unat Offset + unat NumBytes \<longrightarrow>
        Data' ! j = Data ! j OR ucast (drop_bit (8 * (j - unat Offset)) Value))"
proof (induction i NumBytes Offset Value Data rule: applyFixup_loop.induct)
  case (1 i NumBytes Offset Value Data)
  show ?case
  proof (cases "i < NumBytes")
    case False
    then have "unat NumBytes \<le> unat i" by (simp add: word_less_nat_alt)
    then have "\<not> (unat Offset + unat i \<le> j \<and> j < unat Offset + unat NumBytes)" for j
      by simp
    then show ?thesis using False by (auto simp add: applyFixup_loop.simps)
  next
    case True
    have i8: "unat i < 8"
      using True "1.prems"(3) by (simp add: word_less_nat_alt word_le_nat_alt)
    have iN: "unat i < unat NumBytes"
      using True by (simp add: word_less_nat_alt)
    have sh8: "unat (i * 8) = 8 * unat i"
      using i8 by (simp add: unat_word_ariths)
    have sh: "\<not> 64 \<le> i * 8"
      using i8 sh8 by (simp add: word_le_nat_alt)
    have idx: "unat (Offset + i) = unat Offset + unat i"
      using iN "1.prems"(1,2) by (simp add: unat_word_ariths)
    have inb: "unat (Offset + i) < length Data"
      using idx iN "1.prems"(1) by simp
    have suc: "unat (i + 1) = Suc (unat i)"
      using i8 by (simp add: unat_word_ariths)
    define mask :: u8 where "mask = ucast (drop_bit (unat (i * 8)) Value AND 0xff)"
    define D1 where "D1 = Data[unat (Offset + i) := Data ! unat (Offset + i) OR mask]"
    have mask_eq: "mask = ucast (drop_bit (8 * unat i) Value)"
      by (simp add: mask_def ucast_low_byte sh8)
    have len: "length D1 = length Data" by (simp add: D1_def)
    have step: "applyFixup_loop i NumBytes Offset Value Data =
        applyFixup_loop (i + 1) NumBytes Offset Value D1"
      using True sh inb by (subst applyFixup_loop.simps) (simp add: D1_def mask_def Let_def)
    have "\<exists>Data'. applyFixup_loop (i + 1) NumBytes Offset Value D1 = Inr Data' \<and>
        length Data' = length D1 \<and>
        (\<forall>j. j < unat Offset + unat (i + 1) \<or> unat Offset + unat NumBytes \<le> j \<longrightarrow>
           Data' ! j = D1 ! j) \<and>
        (\<forall>j. unat Offset + unat (i + 1) \<le> j \<and> j < unat Offset + unat NumBytes \<longrightarrow>
           Data' ! j = D1 ! j OR ucast (drop_bit (8 * (j - unat Offset)) Value))"
      using "1.IH" [OF True sh refl inb] "1.prems" len
      by (simp add: D1_def mask_def)
    then obtain Data' where r: "applyFixup_loop (i + 1) NumBytes Offset Value D1 = Inr Data'"
      "length Data' = length D1"
      "\<And>j. j < unat Offset + unat (i + 1) \<or> unat Offset + unat NumBytes \<le> j \<Longrightarrow>
         Data' ! j = D1 ! j"
      "\<And>j. unat Offset + unat (i + 1) \<le> j \<and> j < unat Offset + unat NumBytes \<Longrightarrow>
         Data' ! j = D1 ! j OR ucast (drop_bit (8 * (j - unat Offset)) Value)"
      by blast
    have other: "D1 ! j = Data ! j" if "j \<noteq> unat Offset + unat i" for j
      using that idx by (simp add: D1_def)
    have here: "D1 ! (unat Offset + unat i) =
        Data ! (unat Offset + unat i) OR ucast (drop_bit (8 * unat i) Value)"
      using inb idx by (simp add: D1_def mask_eq)
    have frame: "Data' ! j = Data ! j"
      if "j < unat Offset + unat i \<or> unat Offset + unat NumBytes \<le> j" for j
    proof -
      have "j \<noteq> unat Offset + unat i" using that iN by auto
      moreover have "Data' ! j = D1 ! j" using that suc by (intro r(3)) auto
      ultimately show ?thesis by (simp add: other)
    qed
    have merged: "Data' ! j = Data ! j OR ucast (drop_bit (8 * (j - unat Offset)) Value)"
      if "unat Offset + unat i \<le> j \<and> j < unat Offset + unat NumBytes" for j
    proof (cases "j = unat Offset + unat i")
      case True
      then have "Data' ! j = D1 ! j" using suc by (intro r(3)) simp
      then show ?thesis using True here by simp
    next
      case False
      then have "unat Offset + unat (i + 1) \<le> j \<and> j < unat Offset + unat NumBytes"
        using that suc by auto
      then have "Data' ! j = D1 ! j OR ucast (drop_bit (8 * (j - unat Offset)) Value)"
        by (rule r(4))
      then show ?thesis using False by (simp add: other)
    qed
    show ?thesis
      using step r(1,2) len frame merged by auto
  qed
qed

lemma span_word:
  assumes "unat Offset + spannedBytes K < 2 ^ 32"
  shows "unat (Offset + of_nat (spannedBytes K) :: u32) = unat Offset + spannedBytes K"
    and "unat (of_nat (spannedBytes K) :: u32) = spannedBytes K"
proof -
  have s8: "spannedBytes K \<le> 8" using kind_span [of K] by simp
  then show b: "unat (of_nat (spannedBytes K) :: u32) = spannedBytes K"
    by (simp add: unat_of_nat)
  show "unat (Offset + of_nat (spannedBytes K) :: u32) = unat Offset + spannedBytes K"
    using assms b by (simp add: unat_word_ariths)
qed

lemma applyFixup_unfold:
  "Value \<noteq> 0 \<Longrightarrow> applyFixup Kind Offset Data DataSize Value =
     (if \<not> Offset + of_nat (spannedBytes Kind) \<le> DataSize
      then Inl (AssertionFailed ''Invalid fixup offset!'')
      else applyFixup_loop 0 (of_nat (spannedBytes Kind)) Offset
             (push_bit (unat (TargetOffset (getFixupKindInfo Kind))) Value) Data)"
  using kind_span [of Kind]
  by (simp add: applyFixup_def Let_def word_le_nat_alt word_less_nat_alt)




text \<open>
  The sum of the assertion is computed in 32 bits. An offset so large that
  \<open>Offset + NumBytes\<close> wraps passes the assertion, and the first store is outside the
  buffer.
\<close>

lemma applyFixup_offset_wrap:
  "applyFixup fixup_call 0xffffffff [0x0e, 0x94] 2 1 =
     Inl (UndefinedBehaviour ''store outside the buffer'')"
  by (simp add: applyFixup_def spannedBytes_def getFixupKindInfo_def applyFixup_loop.simps)

text \<open>
  C9. For every in-bounds call (the buffer holds \<open>DataSize\<close> bytes and
  \<open>byteOffset + spannedBytes \<le> DataSize\<close>), of every kind and value, \<open>applyFixup\<close> returns
  a buffer of the same length in which every byte outside
  \<open>[byteOffset, byteOffset + spannedBytes)\<close> is unchanged and every byte inside is the old
  byte ORed with the corresponding byte of the shifted value; so every bit that was set
  remains set.
\<close>

theorem applyFixup_frame_and_merge:
  assumes "length Data = unat DataSize" and "unat Offset + spannedBytes Kind \<le> unat DataSize"
  shows "\<exists>Data'. applyFixup Kind Offset Data DataSize Value = Inr Data' \<and>
     length Data' = length Data \<and>
     (\<forall>j < length Data. j < unat Offset \<or> unat Offset + spannedBytes Kind \<le> j \<longrightarrow>
        Data' ! j = Data ! j) \<and>
     (\<forall>j < length Data. unat Offset \<le> j \<and> j < unat Offset + spannedBytes Kind \<longrightarrow>
        Data' ! j = Data ! j OR
          ucast (drop_bit (8 * (j - unat Offset))
            (push_bit (unat (TargetOffset (getFixupKindInfo Kind))) Value))) \<and>
     (\<forall>j < length Data. \<forall>n. bit (Data ! j) n \<longrightarrow> bit (Data' ! j) n)"
proof (cases "Value = 0")
  case True
  then show ?thesis by (simp add: applyFixup_def)
next
  case False
  define V1 where "V1 = push_bit (unat (TargetOffset (getFixupKindInfo Kind))) Value"
  have lt: "unat DataSize < 2 ^ 32" using unsigned_less [of DataSize] by simp
  then have small: "unat Offset + spannedBytes Kind < 2 ^ 32" using assms(2) by simp
  note sw = span_word [OF small]
  have ok: "Offset + of_nat (spannedBytes Kind) \<le> DataSize"
    using assms(2) sw by (simp add: word_le_nat_alt)
  have n8: "(of_nat (spannedBytes Kind) :: u32) \<le> 8"
    using kind_span [of Kind] sw(2) by (simp add: word_le_nat_alt)
  have "\<exists>Data'. applyFixup_loop 0 (of_nat (spannedBytes Kind)) Offset V1 Data = Inr Data' \<and>
      length Data' = length Data \<and>
      (\<forall>j. j < unat Offset + unat (0::u32) \<or>
            unat Offset + unat (of_nat (spannedBytes Kind) :: u32) \<le> j \<longrightarrow>
         Data' ! j = Data ! j) \<and>
      (\<forall>j. unat Offset + unat (0::u32) \<le> j \<and>
            j < unat Offset + unat (of_nat (spannedBytes Kind) :: u32) \<longrightarrow>
         Data' ! j = Data ! j OR ucast (drop_bit (8 * (j - unat Offset)) V1))"
    using assms lt sw n8 by (intro applyFixup_loop_spec) simp_all
  then obtain Data' where
    r: "applyFixup_loop 0 (of_nat (spannedBytes Kind)) Offset V1 Data = Inr Data'"
      "length Data' = length Data"
      "\<And>j. j < unat Offset \<or> unat Offset + spannedBytes Kind \<le> j \<Longrightarrow> Data' ! j = Data ! j"
      "\<And>j. unat Offset \<le> j \<and> j < unat Offset + spannedBytes Kind \<Longrightarrow>
         Data' ! j = Data ! j OR ucast (drop_bit (8 * (j - unat Offset)) V1)"
    using sw by auto
  have res: "applyFixup Kind Offset Data DataSize Value = Inr Data'"
    using False ok r(1) by (simp add: applyFixup_unfold V1_def)
  have keep: "bit (Data' ! j) n" if "bit (Data ! j) n" for j n
  proof (cases "unat Offset \<le> j \<and> j < unat Offset + spannedBytes Kind")
    case True
    then show ?thesis using r(4) [of j] that by (simp add: bit_or_iff)
  next
    case False
    then show ?thesis using r(3) [of j] that by auto
  qed
  show ?thesis
    using res r(2,3,4) keep unfolding V1_def by blast
qed

theorem applyFixup_frame_and_merge_witness:
  "length [0x01, 0xf0, 0x00, 0x55 :: u8] = unat (4 :: u32) \<and>
   unat (1 :: u32) + spannedBytes fixup_7_pcrel \<le> unat (4 :: u32) \<and>
   applyFixup fixup_7_pcrel 1 [0x01, 0xf0, 0x00, 0x55] 4 0x7f = Inr [0x01, 0xf8, 0x03, 0x55]"
  using applyFixup_frame_and_merge [of "[0x01, 0xf0, 0x00, 0x55]" 4 1 fixup_7_pcrel "0x7f"]
  by (simp add: applyFixup_def spannedBytes_def getFixupKindInfo_def applyFixup_loop.simps)

end
